theory Spec2Isabelle
  imports Complex_Main
begin

section \<open>The landslide risk scoring engine\<close>

text \<open>
  A shallow embedding of \<^verbatim>\<open>calculateLandslideRisk\<close> and of the value-shaping tail of
  \<^verbatim>\<open>fetchSoil\<close> (server file, lines 55-95 and 123-244).

  Numbers. A JavaScript Number is modelled by the real number it denotes, decimal
  literals by the decimal they spell, \<^verbatim>\<open>Math.sin\<close>, \<^verbatim>\<open>Math.cos\<close>, \<^verbatim>\<open>Math.tan\<close> by the
  mathematical functions and \<^verbatim>\<open>Math.pow(x, 2)\<close> by the square. The comparisons of an
  input with a literal threshold are therefore exactly the source's; the results of
  arithmetic are the exact values that the source's binary64 arithmetic approximates.
  The non-finite values (NaN, the infinities) have no counterpart: every field of the
  input is a finite number, and a quotient whose divisor is zero is outside the model.

  Names. Each local constant of the source is a function of the feature record with the
  same name; \<^verbatim>\<open>c\<close>, \<^verbatim>\<open>phi\<close>, \<^verbatim>\<open>z\<close> and \<^verbatim>\<open>u\<close> are \<open>c_base\<close>, \<open>phi_base\<close>, \<open>z_depth\<close> and
  \<open>u_pore\<close>, the first value of the local \<^verbatim>\<open>FoS\<close> is \<open>FoS_stability\<close>, and the local
  \<^verbatim>\<open>level\<close> is \<open>level_of\<close>.
\<close>

subsection \<open>Data\<close>

text \<open>The object returned by \<^verbatim>\<open>fetchSoil\<close>.\<close>

record soil =
  bulk_density :: real
  clay :: real
  sand :: real
  silt :: real
  isWater :: bool

text \<open>
  The feature object \<^verbatim>\<open>{ ...weather, ...soil, ...topo }\<close>, with the fields that
  \<^verbatim>\<open>calculateLandslideRisk\<close> destructures.
\<close>

record features = soil +
  rain :: real
  slope :: real
  elevation :: real
  temp :: real
  code :: real

text \<open>The four strings that \<^verbatim>\<open>level\<close> can hold.\<close>

datatype risk_level = Safe | Low | Medium | High

text \<open>
  A string built by a template literal: literal text (as UTF-8 bytes) and interpolated
  numbers. \<open>Fixed d x\<close> stands for \<^verbatim>\<open>x.toFixed(d)\<close> and \<open>Num x\<close> for the default
  conversion \<^verbatim>\<open>${x}\<close>; the digits they print depend on the binary64 value and are
  left symbolic.
\<close>

datatype part = Lit string | Fixed nat real | Num real

type_synonym jstring = "part list"

record risk_details =
  FoS :: real
  cohesion_base :: real
  friction_base :: real
  cohesion_effective :: real
  friction_effective :: real
  shear_strength :: real
  shear_stress :: real

record prediction =
  level :: risk_level
  reason :: jstring
  details :: risk_details

subsection \<open>Library functions of the language\<close>

text \<open>
  \<^verbatim>\<open>Number(x.toFixed(d))\<close>: below \<open>10^21\<close> in magnitude, \<^verbatim>\<open>toFixed\<close> prints the integer
  \<open>n\<close> for which \<open>n / 10^d\<close> is closest to \<open>\<bar>x\<bar>\<close> (the larger one of two), with the sign
  of \<open>x\<close>; from \<open>10^21\<close> on it prints the number itself.

  This is the rule of the language, applied here to the exact value. Where the exact
  value is a decimal tie (such as 11.555 for two decimals), the binary64 value that the
  source holds lies just beside it, on either side, and the source prints the neighbour
  on that side: 11.55 where this function gives 11.56. Away from ties both agree. The
  statements below about a rounded field therefore assert only what holds for either
  neighbour of a tie.
\<close>

definition Number_toFixed :: "nat \<Rightarrow> real \<Rightarrow> real" where
  "Number_toFixed d x =
     (if 10 ^ 21 \<le> \<bar>x\<bar> then x
      else sgn x * of_int \<lfloor>\<bar>x\<bar> * 10 ^ d + 1 / 2\<rfloor> / 10 ^ d)"

text \<open>\<^verbatim>\<open>Array.prototype.join\<close>.\<close>

fun join :: "jstring \<Rightarrow> jstring list \<Rightarrow> jstring" where
  "join sep [] = []"
| "join sep [s] = s"
| "join sep (s # t # ts) = s @ sep @ join sep (t # ts)"

subsection \<open>fetchSoil\<close>

text \<open>
  What \<^verbatim>\<open>fetchSoil\<close> has in hand after the request: the request failed (the
  \<^verbatim>\<open>catch\<close> branch), the answer has no \<^verbatim>\<open>properties\<close>, or the three means
  \<^verbatim>\<open>clay\<close>, \<^verbatim>\<open>sand\<close>, \<^verbatim>\<open>bulk_density\<close> were read from it (lines 73-79).
\<close>

datatype soil_response = Failed | NoProps | Means real real real

definition fetchSoil :: "soil_response \<Rightarrow> soil" where
  "fetchSoil r =
     (case r of
        Failed \<Rightarrow> \<lparr>bulk_density = 130, clay = 33, sand = 33, silt = 34, isWater = False\<rparr>
      | NoProps \<Rightarrow> \<lparr>bulk_density = 130, clay = 33, sand = 33, silt = 34, isWater = False\<rparr>
      | Means clay0 sand0 bulk_density0 \<Rightarrow>
          if clay0 = 0 \<and> sand0 = 0 \<and> bulk_density0 = 0
          then \<lparr>bulk_density = 0, clay = 0, sand = 0, silt = 0, isWater = True\<rparr>
          else
            let clay1 = clay0 / 10;
                sand1 = sand0 / 10;
                silt0 = 100 - clay1 - sand1;
                silt1 = (if silt0 < 0 then 0 else silt0)
            in \<lparr>bulk_density = bulk_density0, clay = clay1, sand = sand1, silt = silt1,
                isWater = False\<rparr>)"

subsection \<open>calculateLandslideRisk: the two overrides\<close>

definition isSeaOrWater :: "features \<Rightarrow> bool" where
  "isSeaOrWater f \<longleftrightarrow>
     isWater f \<or>
     (elevation f \<ge> - 5 \<and> elevation f \<le> 5 \<and> \<bar>slope f\<bar> < 0.5 \<and> bulk_density f < 20)"

definition isSnow :: "features \<Rightarrow> bool" where
  "isSnow f \<longleftrightarrow> code f \<in> set [71, 73, 75, 77, 85, 86] \<or> temp f < - 1"

definition water_reason :: jstring where
  "water_reason =
     [Lit ([CHR 0xF0, CHR 0x9F, CHR 0x8C, CHR 0x8A] @
        '' Water body / Sea detected (flat terrain at sea level). This is not a typical land slope.'')]"

definition snow_reason :: jstring where
  "snow_reason =
     [Lit ([CHR 0xE2, CHR 0x9D, CHR 0x84, CHR 0xEF, CHR 0xB8, CHR 0x8F] @
        '' Ice/Snow detected. Risk is predominantly from Avalanche or Thaw-Slump, not typical soil shear.'')]"

subsection \<open>calculateLandslideRisk: soil strength, saturation, stability\<close>

definition fClay :: "'a soil_scheme \<Rightarrow> real" where
  "fClay f = clay f / 100"

definition fSand :: "'a soil_scheme \<Rightarrow> real" where
  "fSand f = sand f / 100"

definition fSilt :: "'a soil_scheme \<Rightarrow> real" where
  "fSilt f = silt f / 100"

definition c_base :: "features \<Rightarrow> real" where
  "c_base f = (fClay f * 35) + (fSilt f * 10) + (fSand f * 1)"

definition phi_base :: "features \<Rightarrow> real" where
  "phi_base f = (fSand f * 34) + (fSilt f * 28) + (fClay f * 18)"

definition saturationIndex :: "features \<Rightarrow> real" where
  "saturationIndex f =
     (if rain f > 800 then 1.0
      else if rain f > 400 then 0.7
      else if rain f > 100 then 0.4
      else 0.1)"

definition c_eff :: "features \<Rightarrow> real" where
  "c_eff f = c_base f * (1 - 0.5 * saturationIndex f)"

definition phi_eff :: "features \<Rightarrow> real" where
  "phi_eff f = phi_base f * (1 - 0.3 * saturationIndex f)"

definition c_used :: "features \<Rightarrow> real" where
  "c_used f = max 0 (c_eff f)"

definition phi_used :: "features \<Rightarrow> real" where
  "phi_used f = max 5 (phi_eff f)"

definition gamma :: "features \<Rightarrow> real" where
  "gamma f = (bulk_density f / 100) * 9.81"

definition z_depth :: real where
  "z_depth = 3.0"

definition beta :: "features \<Rightarrow> real" where
  "beta f = slope f * (pi / 180)"

definition sigma :: "features \<Rightarrow> real" where
  "sigma f = gamma f * z_depth * (cos (beta f)) ^ 2"

definition tau_driving :: "features \<Rightarrow> real" where
  "tau_driving f = gamma f * z_depth * sin (beta f) * cos (beta f)"

definition u_pore :: "features \<Rightarrow> real" where
  "u_pore f =
     (if rain f > 800 then sigma f * 0.5
      else if rain f > 400 then sigma f * 0.3
      else if rain f > 100 then sigma f * 0.1
      else 0)"

definition sigma_effective :: "features \<Rightarrow> real" where
  "sigma_effective f = max 0 (sigma f - u_pore f)"

definition tanPhi :: "features \<Rightarrow> real" where
  "tanPhi f = tan (phi_used f * (pi / 180))"

definition tau_resisting :: "features \<Rightarrow> real" where
  "tau_resisting f = c_used f + (sigma_effective f * tanPhi f)"

definition FoS_stability :: "features \<Rightarrow> real" where
  "FoS_stability f = tau_resisting f / (tau_driving f + 0.001)"

subsection \<open>calculateLandslideRisk: probability and level\<close>

text \<open>
  Lines 201-211 assign \<^verbatim>\<open>FoS\<close> and \<^verbatim>\<open>probability\<close> together; the pair is the value
  of both after the conditional.
\<close>

definition FoS_probability :: "features \<Rightarrow> real \<times> real" where
  "FoS_probability f =
     (if slope f < 1 then (20.0, 0.01)
      else
        (FoS_stability f,
         if FoS_stability f < 1.0 then 0.95
         else if FoS_stability f < 1.2 then 0.75
         else if FoS_stability f < 1.5 then 0.40
         else if FoS_stability f < 2.0 then 0.20
         else 0.05))"

definition FoS_final :: "features \<Rightarrow> real" where
  "FoS_final f = fst (FoS_probability f)"

definition probability :: "features \<Rightarrow> real" where
  "probability f = snd (FoS_probability f)"

definition level_of :: "features \<Rightarrow> risk_level" where
  "level_of f =
     (if probability f > 0.7 then High
      else if probability f > 0.3 then Medium
      else Low)"

subsection \<open>calculateLandslideRisk: the narrative\<close>

definition clay_sentence :: "real \<Rightarrow> jstring" where
  "clay_sentence x =
     [Lit ''The terrain is Clay-rich ('', Fixed 0 x,
      Lit ''%), which is cohesive but slippery when wet.'']"

definition sandy_sentence :: "real \<Rightarrow> jstring" where
  "sandy_sentence x =
     [Lit ''The terrain is Sandy ('', Fixed 0 x,
      Lit ''%), which is loose and prone to washout.'']"

definition balanced_sentence :: jstring where
  "balanced_sentence =
     [Lit ''The soil has a balanced mix of sand, silt, and clay, providing moderate stability.'']"

definition steep_sentence :: "real \<Rightarrow> jstring" where
  "steep_sentence x =
     [Lit ''The slope is extremely steep ('', Num x,
      Lit ([CHR 0xC2, CHR 0xB0] @ ''), making it naturally unstable.'')]"

definition flat_sentence :: "real \<Rightarrow> jstring" where
  "flat_sentence x =
     [Lit ''The land is flat ('', Num x,
      Lit ([CHR 0xC2, CHR 0xB0] @ ''), significantly reducing landslide risk.'')]"

definition critical_sentence :: jstring where
  "critical_sentence =
     [Lit ([CHR 0xE2, CHR 0x9A, CHR 0xA0, CHR 0xEF, CHR 0xB8, CHR 0x8F] @
        '' CRITICAL: Heavy rainfall is saturating the ground, reducing cohesion and friction.'')]"

definition moderate_sentence :: jstring where
  "moderate_sentence =
     [Lit ''Moderate rain detected. Pore pressure is increasing and effective strength is reduced.'']"

text \<open>The array \<^verbatim>\<open>sentences\<close> after the three groups of \<^verbatim>\<open>push\<close> (lines 217-227).\<close>

definition sentences :: "features \<Rightarrow> jstring list" where
  "sentences f =
     (let s0 = [];
          s1 = (if fClay f > 0.45 then s0 @ [clay_sentence (clay f)]
                else if fSand f > 0.6 then s0 @ [sandy_sentence (sand f)]
                else s0 @ [balanced_sentence]);
          s2 = (if slope f > 35 then s1 @ [steep_sentence (slope f)]
                else if slope f < 5 then s1 @ [flat_sentence (slope f)]
                else s1);
          s3 = (if rain f > 400 then s2 @ [critical_sentence]
                else if rain f > 100 then s2 @ [moderate_sentence]
                else s2)
      in s3)"

definition reason_of :: "features \<Rightarrow> jstring" where
  "reason_of f = join [Lit '' ''] (sentences f)"

subsection \<open>calculateLandslideRisk\<close>

definition calculateLandslideRisk :: "features \<Rightarrow> prediction" where
  "calculateLandslideRisk f =
     (if isSeaOrWater f then
        \<lparr>level = Safe,
         reason = water_reason,
         details = \<lparr>FoS = 100, cohesion_base = 0, friction_base = 0,
           cohesion_effective = 0, friction_effective = 0,
           shear_strength = 0, shear_stress = 0\<rparr>\<rparr>
      else if isSnow f then
        \<lparr>level = (if slope f > 30 then High else Medium),
         reason = snow_reason,
         details = \<lparr>FoS = (if slope f > 30 then 0.9 else 1.5),
           cohesion_base = 50, friction_base = 10,
           cohesion_effective = 50, friction_effective = 10,
           shear_strength = 0, shear_stress = 0\<rparr>\<rparr>
      else
        \<lparr>level = level_of f,
         reason = reason_of f,
         details = \<lparr>FoS = FoS_final f,
           cohesion_base = Number_toFixed 2 (c_base f),
           friction_base = Number_toFixed 2 (phi_base f),
           cohesion_effective = Number_toFixed 2 (c_used f),
           friction_effective = Number_toFixed 2 (phi_used f),
           shear_strength = tau_resisting f,
           shear_stress = tau_driving f\<rparr>\<rparr>)"

subsection \<open>Example inputs\<close>

text \<open>The open-water record of \<^verbatim>\<open>fetchSoil\<close> with the fallback weather and terrain.\<close>

definition open_sea :: features where
  "open_sea = \<lparr>bulk_density = 0, clay = 0, sand = 0, silt = 0, isWater = True,
     rain = 0, slope = 0, elevation = 0, temp = 25, code = 0\<rparr>"

text \<open>A shallow lagoon: flat, at sea level, with almost no soil density reported.\<close>

definition lagoon :: features where
  "lagoon = \<lparr>bulk_density = 10, clay = 5, sand = 5, silt = 90, isWater = False,
     rain = 0, slope = 0.2, elevation = 2, temp = 25, code = 0\<rparr>"

text \<open>Frozen ground under a clear sky (weather code 0) on a slope of 35 degrees.\<close>

definition permafrost :: features where
  "permafrost = \<lparr>bulk_density = 130, clay = 33, sand = 33, silt = 34, isWater = False,
     rain = 0, slope = 35, elevation = 2500, temp = - 5, code = 0\<rparr>"

text \<open>Snowfall (weather code 71) above freezing, on a slope of \<open>s\<close> degrees.\<close>

definition snowfield :: "real \<Rightarrow> features" where
  "snowfield s = \<lparr>bulk_density = 130, clay = 33, sand = 33, silt = 34, isWater = False,
     rain = 0, slope = s, elevation = 1800, temp = 5, code = 71\<rparr>"

text \<open>The scenario of the specification's fifth testable property.\<close>

definition steep_clay :: features where
  "steep_clay = \<lparr>bulk_density = 130, clay = 60, sand = 20, silt = 20, isWater = False,
     rain = 0, slope = 45, elevation = 500, temp = 20, code = 0\<rparr>"

text \<open>Nearly level ground inland.\<close>

definition meadow :: features where
  "meadow = \<lparr>bulk_density = 130, clay = 33, sand = 33, silt = 34, isWater = False,
     rain = 900, slope = 0.4, elevation = 300, temp = 20, code = 0\<rparr>"

text \<open>
  The soil that \<^verbatim>\<open>fetchSoil\<close> returns for the means 333, 333 (clay, sand) and 130,
  on a slope of 20 degrees.
\<close>

definition loam :: features where
  "loam = \<lparr>bulk_density = 130, clay = 33.3, sand = 33.3, silt = 33.4, isWater = False,
     rain = 0, slope = 20, elevation = 500, temp = 20, code = 0\<rparr>"

text \<open>The fallback soil on a slope of 30 degrees.\<close>

definition hillside :: features where
  "hillside = \<lparr>bulk_density = 130, clay = 33, sand = 33, silt = 34, isWater = False,
     rain = 50, slope = 30, elevation = 500, temp = 20, code = 0\<rparr>"

section \<open>Properties\<close>

subsection \<open>Shared facts\<close>

lemma normal_path:
  assumes "\<not> isSeaOrWater f" and "\<not> isSnow f"
  shows "calculateLandslideRisk f =
        \<lparr>level = level_of f,
         reason = reason_of f,
         details = \<lparr>FoS = FoS_final f,
           cohesion_base = Number_toFixed 2 (c_base f),
           friction_base = Number_toFixed 2 (phi_base f),
           cohesion_effective = Number_toFixed 2 (c_used f),
           friction_effective = Number_toFixed 2 (phi_used f),
           shear_strength = tau_resisting f,
           shear_stress = tau_driving f\<rparr>\<rparr>"
  using assms by (simp add: calculateLandslideRisk_def)

lemma FoS_normal:
  "\<not> isSeaOrWater f \<Longrightarrow> \<not> isSnow f \<Longrightarrow>
     FoS (details (calculateLandslideRisk f)) = FoS_final f"
  by (simp add: normal_path)

lemma steep_clay_path: "\<not> isSeaOrWater steep_clay" "\<not> isSnow steep_clay"
  by (simp_all add: isSeaOrWater_def isSnow_def steep_clay_def)

lemma meadow_path: "\<not> isSeaOrWater meadow" "\<not> isSnow meadow"
  by (simp_all add: isSeaOrWater_def isSnow_def meadow_def)

lemma loam_path: "\<not> isSeaOrWater loam" "\<not> isSnow loam"
  by (simp_all add: isSeaOrWater_def isSnow_def loam_def)

lemma steep_clay_slope: "\<not> slope steep_clay < 1"
  by (simp add: steep_clay_def)

lemmas stability_defs =
  FoS_stability_def tau_resisting_def tanPhi_def sigma_effective_def u_pore_def
  tau_driving_def sigma_def beta_def z_depth_def gamma_def phi_used_def c_used_def
  phi_eff_def c_eff_def saturationIndex_def phi_base_def c_base_def
  fClay_def fSand_def fSilt_def

text \<open>The trigonometric values at 45 degrees, and a lower bound at 22.5 degrees.\<close>

lemma sin_cos_45: "sin (pi / 4) * cos (pi / 4) = 1 / 2" "(cos (pi / 4))\<^sup>2 = 1 / 2"
  by (simp_all add: sin_45 cos_45 power2_eq_square)

lemma tan_pi8_ge: "2 / 5 \<le> tan (pi / 8)"
proof (rule ccontr)
  assume "\<not> 2 / 5 \<le> tan (pi / 8)"
  then have lt: "tan (pi / 8) < 2 / 5" by simp
  have pos: "0 < tan (pi / 8)" by (rule tan_gt_zero) simp_all
  have c1: "cos (pi / 8) \<noteq> 0"
    using cos_gt_zero_pi [of "pi / 8"] by simp
  have c2: "cos (2 * (pi / 8)) \<noteq> 0"
    using cos_gt_zero_pi [of "2 * (pi / 8)"] by simp
  have "tan (2 * (pi / 8)) = 2 * tan (pi / 8) / (1 - (tan (pi / 8))\<^sup>2)"
    using c1 c2 by (rule tan_double)
  moreover have "tan (2 * (pi / 8)) = 1" using tan_45 by simp
  ultimately have e: "2 * tan (pi / 8) / (1 - (tan (pi / 8))\<^sup>2) = 1" by simp
  have "tan (pi / 8) * tan (pi / 8) \<le> (2 / 5) * (2 / 5)"
    using lt pos by (intro mult_mono) simp_all
  then have sq: "(tan (pi / 8))\<^sup>2 \<le> 4 / 25" by (simp add: power2_eq_square)
  then have d: "0 < 1 - (tan (pi / 8))\<^sup>2" by simp
  from e d have "2 * tan (pi / 8) = 1 - (tan (pi / 8))\<^sup>2" by (simp add: field_simps)
  with sq lt show False by simp
qed

lemma inverse_sqrt3_le: "1 / sqrt 3 \<le> 3 / 5"
proof -
  have "5 / 3 \<le> sqrt 3" by (rule real_le_rsqrt) (simp add: power2_eq_square)
  then show ?thesis by (simp add: field_simps)
qed

text \<open>
  The stability values of the scenario \<open>steep_clay\<close>: the friction angle in use is
  22.504 degrees, between 22.5 and 30, which places the factor of safety between 1.5
  and 2.
\<close>

lemma steep_clay_bases: "c_base steep_clay = 23.2" "phi_base steep_clay = 23.2"
  by (simp_all add: c_base_def phi_base_def fClay_def fSand_def fSilt_def steep_clay_def)

lemma steep_clay_formula:
  "35 * fClay steep_clay + 10 * fSilt steep_clay + 1 * fSand steep_clay = 23.2"
  "34 * fSand steep_clay + 28 * fSilt steep_clay + 18 * fClay steep_clay = 23.2"
  by (simp_all add: fClay_def fSand_def fSilt_def steep_clay_def)

lemma steep_clay_saturation: "saturationIndex steep_clay = 0.1"
  by (simp add: saturationIndex_def steep_clay_def)

lemma steep_clay_tanPhi_eq: "tanPhi steep_clay = tan (22.504 * (pi / 180))"
  by (simp add: tanPhi_def phi_used_def phi_eff_def steep_clay_saturation steep_clay_bases)

lemma steep_clay_tanPhi: "2 / 5 \<le> tanPhi steep_clay" "tanPhi steep_clay \<le> 1 / sqrt 3"
proof -
  have "tan (pi / 8) \<le> tan (22.504 * (pi / 180))"
    by (rule tan_mono_le) simp_all
  with tan_pi8_ge show "2 / 5 \<le> tanPhi steep_clay"
    by (simp add: steep_clay_tanPhi_eq)
  have "tan (22.504 * (pi / 180)) \<le> tan (pi / 6)"
    by (rule tan_mono_le) simp_all
  with tan_30 show "tanPhi steep_clay \<le> 1 / sqrt 3"
    by (simp add: steep_clay_tanPhi_eq)
qed

lemma steep_clay_FoS_stability:
  "FoS_stability steep_clay = (22.04 + 19.1295 * tanPhi steep_clay) / 19.1305"
proof -
  have b: "beta steep_clay = pi / 4" by (simp add: beta_def steep_clay_def)
  have g: "gamma steep_clay = 12.753" by (simp add: gamma_def steep_clay_def)
  have "tau_driving steep_clay = 12.753 * 3 * (sin (pi / 4) * cos (pi / 4))"
    by (simp add: tau_driving_def b g z_depth_def)
  then have td: "tau_driving steep_clay = 19.1295"
    by (simp only: sin_cos_45) simp
  have sg: "sigma steep_clay = 19.1295"
    by (simp add: sigma_def b g z_depth_def sin_cos_45)
  have se: "sigma_effective steep_clay = 19.1295"
    by (simp add: sigma_effective_def u_pore_def sg) (simp add: steep_clay_def)
  have cu: "c_used steep_clay = 22.04"
    by (simp add: c_used_def c_eff_def steep_clay_saturation steep_clay_bases)
  show ?thesis by (simp add: FoS_stability_def tau_resisting_def td se cu)
qed

lemma steep_clay_FoS_bounds: "1.5 < FoS_stability steep_clay" "FoS_stability steep_clay < 2.0"
  using steep_clay_tanPhi inverse_sqrt3_le by (simp_all add: steep_clay_FoS_stability)

lemma steep_clay_FoS:
  "FoS (details (calculateLandslideRisk steep_clay)) = FoS_stability steep_clay"
  using steep_clay_slope
  by (simp add: FoS_normal steep_clay_path FoS_final_def FoS_probability_def)

lemma steep_clay_probability: "probability steep_clay = 0.20"
  using steep_clay_FoS_bounds steep_clay_slope
  by (simp add: probability_def FoS_probability_def)

lemma steep_clay_level: "level (calculateLandslideRisk steep_clay) = Low"
  by (simp add: normal_path steep_clay_path level_of_def steep_clay_probability)

lemma steep_clay_reason:
  "reason (calculateLandslideRisk steep_clay) =
     clay_sentence 60 @ [Lit '' ''] @ steep_sentence 45"
proof -
  have "reason_of steep_clay = clay_sentence 60 @ [Lit '' ''] @ steep_sentence 45"
    by (simp add: reason_of_def sentences_def fClay_def fSand_def steep_clay_def)
  then show ?thesis by (simp add: normal_path steep_clay_path)
qed

subsection \<open>The water override\<close>

text \<open>
  C2. When \<^verbatim>\<open>isWater\<close> is true, or the elevation lies in \<open>[-5, 5]\<close> with \<open>\<bar>slope\<bar> < 0.5\<close>
  and \<open>bulk_density < 20\<close>, the result has level \<open>Safe\<close>, \<open>FoS = 100\<close> and the six
  cohesion, friction and shear fields equal to 0: none of the soil or stability values
  enters the result.
\<close>

theorem water_override:
  assumes "isWater f \<or>
    (- 5 \<le> elevation f \<and> elevation f \<le> 5 \<and> \<bar>slope f\<bar> < 0.5 \<and> bulk_density f < 20)"
  shows "level (calculateLandslideRisk f) = Safe \<and>
         FoS (details (calculateLandslideRisk f)) = 100 \<and>
         cohesion_base (details (calculateLandslideRisk f)) = 0 \<and>
         friction_base (details (calculateLandslideRisk f)) = 0 \<and>
         cohesion_effective (details (calculateLandslideRisk f)) = 0 \<and>
         friction_effective (details (calculateLandslideRisk f)) = 0 \<and>
         shear_strength (details (calculateLandslideRisk f)) = 0 \<and>
         shear_stress (details (calculateLandslideRisk f)) = 0"
proof -
  from assms have "isSeaOrWater f" by (simp add: isSeaOrWater_def)
  then show ?thesis by (simp add: calculateLandslideRisk_def)
qed

theorem water_override_witness:
  "isWater open_sea \<and>
   level (calculateLandslideRisk open_sea) = Safe \<and>
   FoS (details (calculateLandslideRisk open_sea)) = 100 \<and>
   cohesion_base (details (calculateLandslideRisk open_sea)) = 0 \<and>
   shear_stress (details (calculateLandslideRisk open_sea)) = 0 \<and>
   \<not> isWater lagoon \<and> - 5 \<le> elevation lagoon \<and> elevation lagoon \<le> 5 \<and>
   \<bar>slope lagoon\<bar> < 0.5 \<and> bulk_density lagoon < 20 \<and>
   level (calculateLandslideRisk lagoon) = Safe \<and>
   FoS (details (calculateLandslideRisk lagoon)) = 100 \<and>
   friction_base (details (calculateLandslideRisk lagoon)) = 0 \<and>
   shear_strength (details (calculateLandslideRisk lagoon)) = 0"
proof -
  have h: "isWater open_sea" by (simp add: open_sea_def)
  have g: "\<not> isWater lagoon" "- 5 \<le> elevation lagoon" "elevation lagoon \<le> 5"
    "\<bar>slope lagoon\<bar> < 0.5" "bulk_density lagoon < 20"
    by (simp_all add: lagoon_def)
  from water_override [of open_sea] water_override [of lagoon] h g
  show ?thesis by simp
qed

subsection \<open>The snow and ice override\<close>

text \<open>
  C3. When the water override does not fire and the weather code is one of 71, 73, 75,
  77, 85, 86 or the temperature is below \<open>-1\<close>, the result is \<open>High\<close> with \<open>FoS = 0.9\<close>
  if \<open>slope > 30\<close>, and \<open>Medium\<close> with \<open>FoS = 1.5\<close> otherwise; both cohesion fields are
  50, both friction fields 10, both shear fields 0. In particular code 71 at 5 degrees
  Celsius on a slope of 40 gives \<open>(High, 0.9)\<close>, and code 71 on a slope of 10 gives
  \<open>(Medium, 1.5)\<close>.
\<close>

theorem snow_override:
  assumes "\<not> (isWater f \<or>
      (- 5 \<le> elevation f \<and> elevation f \<le> 5 \<and> \<bar>slope f\<bar> < 0.5 \<and> bulk_density f < 20))"
    and "code f \<in> {71, 73, 75, 77, 85, 86} \<or> temp f < - 1"
  shows "(if slope f > 30
          then level (calculateLandslideRisk f) = High \<and>
               FoS (details (calculateLandslideRisk f)) = 0.9
          else level (calculateLandslideRisk f) = Medium \<and>
               FoS (details (calculateLandslideRisk f)) = 1.5) \<and>
         cohesion_base (details (calculateLandslideRisk f)) = 50 \<and>
         cohesion_effective (details (calculateLandslideRisk f)) = 50 \<and>
         friction_base (details (calculateLandslideRisk f)) = 10 \<and>
         friction_effective (details (calculateLandslideRisk f)) = 10 \<and>
         shear_strength (details (calculateLandslideRisk f)) = 0 \<and>
         shear_stress (details (calculateLandslideRisk f)) = 0 \<and>
         (code f = 71 \<and> temp f = 5 \<and> slope f = 40 \<longrightarrow>
            level (calculateLandslideRisk f) = High \<and>
            FoS (details (calculateLandslideRisk f)) = 0.9) \<and>
         (code f = 71 \<and> slope f = 10 \<longrightarrow>
            level (calculateLandslideRisk f) = Medium \<and>
            FoS (details (calculateLandslideRisk f)) = 1.5)"
proof -
  from assms(1) have w: "\<not> isSeaOrWater f" by (simp add: isSeaOrWater_def)
  from assms(2) have s: "isSnow f" by (simp add: isSnow_def)
  from w s show ?thesis by (simp add: calculateLandslideRisk_def)
qed

theorem snow_override_witness:
  "code (snowfield 40) = 71 \<and> temp (snowfield 40) = 5 \<and> slope (snowfield 40) = 40 \<and>
   level (calculateLandslideRisk (snowfield 40)) = High \<and>
   FoS (details (calculateLandslideRisk (snowfield 40))) = 0.9 \<and>
   code (snowfield 10) = 71 \<and> slope (snowfield 10) = 10 \<and>
   level (calculateLandslideRisk (snowfield 10)) = Medium \<and>
   FoS (details (calculateLandslideRisk (snowfield 10))) = 1.5 \<and>
   cohesion_base (details (calculateLandslideRisk (snowfield 10))) = 50 \<and>
   friction_base (details (calculateLandslideRisk (snowfield 10))) = 10 \<and>
   code permafrost = 0 \<and> temp permafrost < - 1 \<and> slope permafrost > 30 \<and>
   level (calculateLandslideRisk permafrost) = High \<and>
   FoS (details (calculateLandslideRisk permafrost)) = 0.9"
proof -
  have w: "\<not> (isWater (snowfield s) \<or>
      (- 5 \<le> elevation (snowfield s) \<and> elevation (snowfield s) \<le> 5 \<and>
       \<bar>slope (snowfield s)\<bar> < 0.5 \<and> bulk_density (snowfield s) < 20))" for s
    by (simp add: snowfield_def)
  have c: "code (snowfield s) \<in> {71, 73, 75, 77, 85, 86} \<or> temp (snowfield s) < - 1" for s
    by (simp add: snowfield_def)
  have v: "code (snowfield s) = 71" "temp (snowfield s) = 5" "slope (snowfield s) = s" for s
    by (simp_all add: snowfield_def)
  have w': "\<not> (isWater permafrost \<or>
      (- 5 \<le> elevation permafrost \<and> elevation permafrost \<le> 5 \<and>
       \<bar>slope permafrost\<bar> < 0.5 \<and> bulk_density permafrost < 20))"
    by (simp add: permafrost_def)
  have v': "code permafrost = 0" "temp permafrost < - 1" "slope permafrost > 30"
    by (simp_all add: permafrost_def)
  then have c': "code permafrost \<in> {71, 73, 75, 77, 85, 86} \<or> temp permafrost < - 1"
    by simp
  from snow_override [OF w [of 40] c [of 40]] snow_override [OF w [of 10] c [of 10]]
    snow_override [OF w' c'] v v'
  show ?thesis by simp
qed

subsection \<open>Which results are Safe\<close>

text \<open>
  C10. The returned level is \<open>Safe\<close> if and only if the water override fires
  (\<^verbatim>\<open>isWater\<close> is true, or the elevation lies in \<open>[-5, 5]\<close> with \<open>\<bar>slope\<bar> < 0.5\<close> and
  \<open>bulk_density < 20\<close>); on every other path the level is one of \<open>Low\<close>, \<open>Medium\<close>,
  \<open>High\<close>.
\<close>

theorem level_Safe_iff:
  "(level (calculateLandslideRisk f) = Safe \<longleftrightarrow>
      isWater f \<or>
      (- 5 \<le> elevation f \<and> elevation f \<le> 5 \<and> \<bar>slope f\<bar> < 0.5 \<and> bulk_density f < 20)) \<and>
   (\<not> (isWater f \<or>
      (- 5 \<le> elevation f \<and> elevation f \<le> 5 \<and> \<bar>slope f\<bar> < 0.5 \<and> bulk_density f < 20)) \<longrightarrow>
      level (calculateLandslideRisk f) \<in> {Low, Medium, High})"
  by (simp add: calculateLandslideRisk_def isSeaOrWater_def level_of_def)

theorem level_Safe_iff_witness:
  "isWater open_sea \<and> level (calculateLandslideRisk open_sea) = Safe \<and>
   \<not> isWater meadow \<and> \<not> elevation meadow \<le> 5 \<and>
   level (calculateLandslideRisk meadow) \<noteq> Safe \<and>
   level (calculateLandslideRisk meadow) \<in> {Low, Medium, High}"
proof -
  have a: "isWater open_sea" by (simp add: open_sea_def)
  have b: "\<not> isWater meadow" "\<not> elevation meadow \<le> 5" by (simp_all add: meadow_def)
  from level_Safe_iff [of open_sea] level_Safe_iff [of meadow] a b
  show ?thesis by simp
qed

subsection \<open>The stability formula\<close>

text \<open>
  C1. On the normal-physics path (neither override fires) with \<open>slope \<ge> 1\<close>, the
  reported factor of safety is
  \<open>(c_used + max(0, sigma - u) * tan(phi_used * pi / 180)) / (gamma * z * sin(beta) * cos(beta) + 0.001)\<close>
  with \<open>gamma = (bulk_density / 100) * 9.81\<close>, \<open>z = 3\<close>, \<open>beta = slope * pi / 180\<close>,
  \<open>sigma = gamma * z * cos\<^sup>2(beta)\<close>, the saturation index 1.0, 0.7, 0.4 or 0.1 for rain
  above 800, above 400, above 100 or below, \<open>c_used = max(0, c * (1 - 0.5 * saturation))\<close>,
  \<open>phi_used = max(5, phi * (1 - 0.3 * saturation))\<close> from the baseline strengths, and the
  pore pressure \<open>u\<close> equal to 0.5, 0.3, 0.1 or 0 times \<open>sigma\<close> on the same thresholds.
\<close>

theorem FoS_stability_formula:
  assumes "\<not> isSeaOrWater f" and "\<not> isSnow f" and "slope f \<ge> 1"
  shows "FoS (details (calculateLandslideRisk f)) =
    (let gamma' = (bulk_density f / 100) * 9.81;
         z = 3.0;
         beta' = slope f * pi / 180;
         sigma' = gamma' * z * (cos beta')\<^sup>2;
         saturation = (if rain f > 800 then 1.0 else if rain f > 400 then 0.7
                       else if rain f > 100 then 0.4 else 0.1);
         c = 35 * (clay f / 100) + 10 * (silt f / 100) + 1 * (sand f / 100);
         phi = 34 * (sand f / 100) + 28 * (silt f / 100) + 18 * (clay f / 100);
         c_used' = max 0 (c * (1 - 0.5 * saturation));
         phi_used' = max 5 (phi * (1 - 0.3 * saturation));
         u = (if rain f > 800 then 0.5 * sigma' else if rain f > 400 then 0.3 * sigma'
              else if rain f > 100 then 0.1 * sigma' else 0)
     in (c_used' + max 0 (sigma' - u) * tan (phi_used' * pi / 180)) /
        (gamma' * z * sin beta' * cos beta' + 0.001))"
proof -
  have "FoS (details (calculateLandslideRisk f)) = FoS_stability f"
    using assms by (simp add: normal_path FoS_final_def FoS_probability_def)
  also have "\<dots> =
    (let gamma' = (bulk_density f / 100) * 9.81;
         z = 3.0;
         beta' = slope f * pi / 180;
         sigma' = gamma' * z * (cos beta')\<^sup>2;
         saturation = (if rain f > 800 then 1.0 else if rain f > 400 then 0.7
                       else if rain f > 100 then 0.4 else 0.1);
         c = 35 * (clay f / 100) + 10 * (silt f / 100) + 1 * (sand f / 100);
         phi = 34 * (sand f / 100) + 28 * (silt f / 100) + 18 * (clay f / 100);
         c_used' = max 0 (c * (1 - 0.5 * saturation));
         phi_used' = max 5 (phi * (1 - 0.3 * saturation));
         u = (if rain f > 800 then 0.5 * sigma' else if rain f > 400 then 0.3 * sigma'
              else if rain f > 100 then 0.1 * sigma' else 0)
     in (c_used' + max 0 (sigma' - u) * tan (phi_used' * pi / 180)) /
        (gamma' * z * sin beta' * cos beta' + 0.001))"
    unfolding stability_defs Let_def by (simp add: mult.commute)
  finally show ?thesis .
qed

theorem FoS_stability_formula_witness:
  "\<not> isSeaOrWater steep_clay \<and> \<not> isSnow steep_clay \<and> slope steep_clay \<ge> 1 \<and>
   FoS (details (calculateLandslideRisk steep_clay)) =
     (22.04 + 19.1295 * tan (22.504 * pi / 180)) / (19.1295 + 0.001)"
proof -
  have s: "slope steep_clay \<ge> 1" by (simp add: steep_clay_def)
  have e: "45 * pi / 180 = pi / 4" by simp
  have "FoS (details (calculateLandslideRisk steep_clay)) =
     (22.04 + 19.1295 * tan (22.504 * pi / 180)) / (19.1295 + 0.001)"
    using FoS_stability_formula [OF steep_clay_path s]
    apply (simp only: Let_def steep_clay_def features.simps soil.simps)
    apply (simp only: e)
    apply (simp add: sin_cos_45 mult.assoc)
    done
  with steep_clay_path s show ?thesis by simp
qed

subsection \<open>Probability and level\<close>



subsection \<open>The narrative\<close>

text \<open>
  C8. On the normal-physics path the reason is the space-join of a list of sentences
  in the order texture, slope, rain: exactly one texture sentence (clay-rich if
  \<open>fClay > 0.45\<close>, else sandy if \<open>fSand > 0.6\<close>, else balanced mix), at most one slope
  sentence (steep if \<open>slope > 35\<close>, flat if \<open>slope < 5\<close>, none in between), and at most
  one rain sentence (critical saturation if \<open>rain > 400\<close>, else moderate rain if
  \<open>rain > 100\<close>, else none).
\<close>

theorem narrative_order:
  assumes "\<not> isSeaOrWater f" and "\<not> isSnow f"
  shows "reason (calculateLandslideRisk f) =
     join [Lit '' '']
       ([if clay f / 100 > 0.45 then clay_sentence (clay f)
         else if sand f / 100 > 0.6 then sandy_sentence (sand f)
         else balanced_sentence] @
        (if slope f > 35 then [steep_sentence (slope f)]
         else if slope f < 5 then [flat_sentence (slope f)]
         else []) @
        (if rain f > 400 then [critical_sentence]
         else if rain f > 100 then [moderate_sentence]
         else []))"
  using assms
  by (simp add: normal_path reason_of_def sentences_def Let_def fClay_def fSand_def)

theorem narrative_order_witness:
  "\<not> isSeaOrWater meadow \<and> \<not> isSnow meadow \<and>
   reason (calculateLandslideRisk meadow) =
     balanced_sentence @ [Lit '' ''] @ flat_sentence 0.4 @ [Lit '' ''] @ critical_sentence \<and>
   \<not> isSeaOrWater steep_clay \<and> \<not> isSnow steep_clay \<and>
   reason (calculateLandslideRisk steep_clay) =
     clay_sentence 60 @ [Lit '' ''] @ steep_sentence 45"
proof -
  from narrative_order [OF meadow_path]
  have 1: "reason (calculateLandslideRisk meadow) =
     balanced_sentence @ [Lit '' ''] @ flat_sentence 0.4 @ [Lit '' ''] @ critical_sentence"
    by (simp add: meadow_def)
  from narrative_order [OF steep_clay_path]
  have 2: "reason (calculateLandslideRisk steep_clay) =
     clay_sentence 60 @ [Lit '' ''] @ steep_sentence 45"
    by (simp add: steep_clay_def)
  from 1 2 meadow_path steep_clay_path show ?thesis by simp
qed

subsection \<open>The reported baseline strengths\<close>

text \<open>Rounding to \<open>d\<close> decimals moves a number by at most half a unit of the last place.\<close>

lemma Number_toFixed_near: "\<bar>Number_toFixed d x - x\<bar> \<le> 1 / (2 * 10 ^ d)"
proof (cases "10 ^ 21 \<le> \<bar>x\<bar>")
  case True
  then show ?thesis by (simp add: Number_toFixed_def)
next
  case False
  define n where "n = \<lfloor>\<bar>x\<bar> * 10 ^ d + 1 / 2\<rfloor>"
  have p: "(0::real) < 10 ^ d" by simp
  have lo: "\<bar>x\<bar> * 10 ^ d - 1 / 2 \<le> of_int n" unfolding n_def by linarith
  have hi: "of_int n \<le> \<bar>x\<bar> * 10 ^ d + 1 / 2" unfolding n_def by linarith
  have h: "\<bar>of_int n - \<bar>x\<bar> * 10 ^ d\<bar> \<le> 1 / 2" using lo hi by linarith
  have "of_int n / 10 ^ d - \<bar>x\<bar> = (of_int n - \<bar>x\<bar> * 10 ^ d) / 10 ^ d"
    by (simp add: field_simps)
  then have "\<bar>of_int n / 10 ^ d - \<bar>x\<bar>\<bar> = \<bar>of_int n - \<bar>x\<bar> * 10 ^ d\<bar> / 10 ^ d"
    by (simp only: abs_divide) simp
  also have "\<dots> \<le> (1 / 2) / 10 ^ d"
    using h p by (intro divide_right_mono) simp_all
  finally have a: "\<bar>of_int n / 10 ^ d - \<bar>x\<bar>\<bar> \<le> 1 / (2 * 10 ^ d)"
    by simp
  have "Number_toFixed d x - x = sgn x * (of_int n / 10 ^ d - \<bar>x\<bar>)"
    using False by (simp add: Number_toFixed_def n_def algebra_simps sgn_real_def abs_if)
  then have "\<bar>Number_toFixed d x - x\<bar> = \<bar>sgn x\<bar> * \<bar>of_int n / 10 ^ d - \<bar>x\<bar>\<bar>"
    by (simp add: abs_mult)
  also have "\<dots> \<le> \<bar>of_int n / 10 ^ d - \<bar>x\<bar>\<bar>"
    by (simp add: sgn_real_def)
  finally show ?thesis using a by linarith
qed

text \<open>
  Below \<open>10^21\<close> the rounded value is a whole number of units of the last place, and a
  number that already is one is left as it is.
\<close>

lemma Number_toFixed_Ints:
  assumes "\<bar>x\<bar> < 10 ^ 21"
  shows "Number_toFixed d x * 10 ^ d \<in> \<int>"
proof -
  have "Number_toFixed d x * 10 ^ d = sgn x * of_int \<lfloor>\<bar>x\<bar> * 10 ^ d + 1 / 2\<rfloor>"
    using assms by (simp add: Number_toFixed_def)
  moreover have "sgn x \<in> \<int>" by (simp add: sgn_real_def)
  ultimately show ?thesis by simp
qed

lemma Number_toFixed_exact:
  assumes "x * 10 ^ d \<in> \<int>"
  shows "Number_toFixed d x = x"
proof (cases "10 ^ 21 \<le> \<bar>x\<bar>")
  case True
  then show ?thesis by (simp add: Number_toFixed_def)
next
  case False
  have "\<bar>x * 10 ^ d\<bar> \<in> \<int>" using assms by simp
  then have "\<bar>x\<bar> * 10 ^ d \<in> \<int>" by (simp add: abs_mult)
  then obtain m :: int where m: "\<bar>x\<bar> * 10 ^ d = of_int m" by (auto elim: Ints_cases)
  have "\<lfloor>\<bar>x\<bar> * 10 ^ d + 1 / 2\<rfloor> = m" unfolding m by linarith
  then have "Number_toFixed d x = sgn x * (\<bar>x\<bar> * 10 ^ d) / 10 ^ d"
    using False by (simp add: Number_toFixed_def m)
  also have "\<dots> = sgn x * \<bar>x\<bar>" by simp
  also have "\<dots> = x" by (simp add: sgn_real_def)
  finally show ?thesis .
qed

lemma loam_reported:
  "cohesion_base (details (calculateLandslideRisk loam)) = 15.33"
  "friction_base (details (calculateLandslideRisk loam)) = 26.67"
  by (simp_all add: calculateLandslideRisk_def isSeaOrWater_def isSnow_def loam_def
      c_base_def phi_base_def fClay_def fSand_def fSilt_def Number_toFixed_def)

lemma loam_formula:
  "35 * fClay loam + 10 * fSilt loam + 1 * fSand loam = 15.328"
  "34 * fSand loam + 28 * fSilt loam + 18 * fClay loam = 26.668"
  by (simp_all add: fClay_def fSand_def fSilt_def loam_def)

text \<open>
  With 33.3 percent clay, 33.3 percent sand and 33.4 percent silt the blends are 15.328
  and 26.668, and the result reports 15.33 and 26.67.
\<close>

theorem baseline_unrounded_counterexample:
  "clay loam = clay (fetchSoil (Means 333 333 130)) \<and>
   sand loam = sand (fetchSoil (Means 333 333 130)) \<and>
   silt loam = silt (fetchSoil (Means 333 333 130)) \<and>
   \<not> isSeaOrWater loam \<and> \<not> isSnow loam \<and>
   cohesion_base (details (calculateLandslideRisk loam))
     \<noteq> 35 * fClay loam + 10 * fSilt loam + 1 * fSand loam \<and>
   friction_base (details (calculateLandslideRisk loam))
     \<noteq> 34 * fSand loam + 28 * fSilt loam + 18 * fClay loam"
proof -
  have "clay loam = clay (fetchSoil (Means 333 333 130))"
    "sand loam = sand (fetchSoil (Means 333 333 130))"
    "silt loam = silt (fetchSoil (Means 333 333 130))"
    by (simp_all add: fetchSoil_def Let_def loam_def)
  then show ?thesis
    unfolding loam_reported loam_formula using loam_path by simp
qed

text \<open>
  C5, as the code has it. On the normal-physics path the reported \<open>cohesion_base\<close> is
  \<open>35 * fClay + 10 * fSilt + 1 * fSand\<close> rounded to two decimals and the reported
  \<open>friction_base\<close> is \<open>34 * fSand + 28 * fSilt + 18 * fClay\<close> rounded to two decimals
  (\<^verbatim>\<open>Number(x.toFixed(2))\<close>): each is within 0.005 of its blend, is a whole number of
  hundredths (for a blend below \<open>10^21\<close> in magnitude), and equals the blend when the
  blend is itself a whole number of hundredths; here \<open>fClay = clay / 100\<close>,
  \<open>fSand = sand / 100\<close>, \<open>fSilt = silt / 100\<close>.
\<close>

theorem baseline_rounded:
  assumes "\<not> isSeaOrWater f" and "\<not> isSnow f"
  shows "\<bar>cohesion_base (details (calculateLandslideRisk f))
            - (35 * fClay f + 10 * fSilt f + 1 * fSand f)\<bar> \<le> 0.005 \<and>
         \<bar>friction_base (details (calculateLandslideRisk f))
            - (34 * fSand f + 28 * fSilt f + 18 * fClay f)\<bar> \<le> 0.005 \<and>
         (\<bar>35 * fClay f + 10 * fSilt f + 1 * fSand f\<bar> < 10 ^ 21 \<longrightarrow>
            cohesion_base (details (calculateLandslideRisk f)) * 100 \<in> \<int>) \<and>
         (\<bar>34 * fSand f + 28 * fSilt f + 18 * fClay f\<bar> < 10 ^ 21 \<longrightarrow>
            friction_base (details (calculateLandslideRisk f)) * 100 \<in> \<int>) \<and>
         ((35 * fClay f + 10 * fSilt f + 1 * fSand f) * 100 \<in> \<int> \<longrightarrow>
            cohesion_base (details (calculateLandslideRisk f))
              = 35 * fClay f + 10 * fSilt f + 1 * fSand f) \<and>
         ((34 * fSand f + 28 * fSilt f + 18 * fClay f) * 100 \<in> \<int> \<longrightarrow>
            friction_base (details (calculateLandslideRisk f))
              = 34 * fSand f + 28 * fSilt f + 18 * fClay f) \<and>
         fClay f = clay f / 100 \<and> fSand f = sand f / 100 \<and> fSilt f = silt f / 100"
proof -
  have c: "35 * fClay f + 10 * fSilt f + 1 * fSand f = c_base f"
    by (simp add: c_base_def)
  have p: "34 * fSand f + 28 * fSilt f + 18 * fClay f = phi_base f"
    by (simp add: phi_base_def)
  have r: "cohesion_base (details (calculateLandslideRisk f)) = Number_toFixed 2 (c_base f)"
    "friction_base (details (calculateLandslideRisk f)) = Number_toFixed 2 (phi_base f)"
    using assms by (simp_all add: normal_path)
  have n: "\<bar>Number_toFixed 2 (c_base f) - c_base f\<bar> \<le> 0.005"
       "\<bar>Number_toFixed 2 (phi_base f) - phi_base f\<bar> \<le> 0.005"
    using Number_toFixed_near [of 2 "c_base f"] Number_toFixed_near [of 2 "phi_base f"]
    by simp_all
  have i: "\<bar>c_base f\<bar> < 10 ^ 21 \<longrightarrow> Number_toFixed 2 (c_base f) * 100 \<in> \<int>"
     "\<bar>phi_base f\<bar> < 10 ^ 21 \<longrightarrow> Number_toFixed 2 (phi_base f) * 100 \<in> \<int>"
    using Number_toFixed_Ints [of "c_base f" 2] Number_toFixed_Ints [of "phi_base f" 2]
    by simp_all
  have e: "c_base f * 100 \<in> \<int> \<longrightarrow> Number_toFixed 2 (c_base f) = c_base f"
     "phi_base f * 100 \<in> \<int> \<longrightarrow> Number_toFixed 2 (phi_base f) = phi_base f"
    using Number_toFixed_exact [of "c_base f" 2] Number_toFixed_exact [of "phi_base f" 2]
    by simp_all
  have d: "fClay f = clay f / 100 \<and> fSand f = sand f / 100 \<and> fSilt f = silt f / 100"
    by (simp add: fClay_def fSand_def fSilt_def)
  show ?thesis unfolding c p r using n i e d by blast
qed

theorem baseline_rounded_witness:
  "\<not> isSeaOrWater loam \<and> \<not> isSnow loam \<and>
   \<bar>cohesion_base (details (calculateLandslideRisk loam)) - 15.328\<bar> \<le> 0.005 \<and>
   \<bar>friction_base (details (calculateLandslideRisk loam)) - 26.668\<bar> \<le> 0.005 \<and>
   \<bar>15.328 :: real\<bar> < 10 ^ 21 \<and> \<bar>26.668 :: real\<bar> < 10 ^ 21 \<and>
   cohesion_base (details (calculateLandslideRisk loam)) * 100 \<in> \<int> \<and>
   friction_base (details (calculateLandslideRisk loam)) * 100 \<in> \<int> \<and>
   \<not> isSeaOrWater steep_clay \<and> \<not> isSnow steep_clay \<and>
   (23.2 :: real) * 100 \<in> \<int> \<and>
   cohesion_base (details (calculateLandslideRisk steep_clay)) = 23.2 \<and>
   friction_base (details (calculateLandslideRisk steep_clay)) = 23.2"
proof -
  have b: "\<bar>15.328 :: real\<bar> < 10 ^ 21" "\<bar>26.668 :: real\<bar> < 10 ^ 21" by simp_all
  have "(23.2 :: real) * 100 = of_int 2320" by simp
  then have z: "(23.2 :: real) * 100 \<in> \<int>" by (simp only: Ints_of_int)
  from baseline_rounded [OF loam_path] b
  have 1: "\<bar>cohesion_base (details (calculateLandslideRisk loam)) - 15.328\<bar> \<le> 0.005 \<and>
   \<bar>friction_base (details (calculateLandslideRisk loam)) - 26.668\<bar> \<le> 0.005 \<and>
   cohesion_base (details (calculateLandslideRisk loam)) * 100 \<in> \<int> \<and>
   friction_base (details (calculateLandslideRisk loam)) * 100 \<in> \<int>"
    unfolding loam_formula by blast
  from baseline_rounded [OF steep_clay_path] z
  have 2: "cohesion_base (details (calculateLandslideRisk steep_clay)) = 23.2 \<and>
   friction_base (details (calculateLandslideRisk steep_clay)) = 23.2"
    unfolding steep_clay_formula by blast
  from 1 2 b z loam_path steep_clay_path show ?thesis by blast
qed

subsection \<open>The texture fractions\<close>

text \<open>
  With the means 600 and 600 for clay and sand, \<^verbatim>\<open>fetchSoil\<close> returns 60 percent
  clay, 60 percent sand and the floored silt 0; the fractions add up to 1.2.
\<close>

theorem fractions_sum_counterexample:
  "clay (fetchSoil (Means 600 600 130)) = 60 \<and> sand (fetchSoil (Means 600 600 130)) = 60 \<and>
   silt (fetchSoil (Means 600 600 130)) = 0 \<and>
   \<not> fClay (fetchSoil (Means 600 600 130)) + fSand (fetchSoil (Means 600 600 130))
       + fSilt (fetchSoil (Means 600 600 130)) \<le> 1"
  by (simp add: fetchSoil_def fClay_def fSand_def fSilt_def Let_def)

text \<open>
  C9, as the code has it. For every soil record that \<^verbatim>\<open>fetchSoil\<close> builds (silt is
  \<open>100 - clay - sand\<close> floored at 0, or the record is the open-water one): if
  \<open>clay + sand \<le> 100\<close> then \<open>fClay + fSand + fSilt \<le> 1\<close> (the sum is 1, or 0 for the
  open-water record); otherwise silt is 0 and
  \<open>fClay + fSand + fSilt = (clay + sand) / 100 > 1\<close>, since nothing renormalises.
\<close>

theorem fractions_sum:
  "(if clay (fetchSoil r) + sand (fetchSoil r) \<le> 100
    then fClay (fetchSoil r) + fSand (fetchSoil r) + fSilt (fetchSoil r) \<le> 1
    else silt (fetchSoil r) = 0 \<and>
         fClay (fetchSoil r) + fSand (fetchSoil r) + fSilt (fetchSoil r)
           = (clay (fetchSoil r) + sand (fetchSoil r)) / 100 \<and>
         1 < fClay (fetchSoil r) + fSand (fetchSoil r) + fSilt (fetchSoil r)) \<and>
   (isWater (fetchSoil r) \<or>
      silt (fetchSoil r) = max 0 (100 - clay (fetchSoil r) - sand (fetchSoil r))) \<and>
   (if clay (fetchSoil r) + sand (fetchSoil r) \<le> 100
    then fClay (fetchSoil r) + fSand (fetchSoil r) + fSilt (fetchSoil r)
           = (if isWater (fetchSoil r) then 0 else 1)
    else \<not> isWater (fetchSoil r))"
  by (cases r) (auto simp add: fetchSoil_def fClay_def fSand_def fSilt_def Let_def field_simps)

theorem fractions_sum_witness:
  "clay (fetchSoil (Means 333 333 130)) + sand (fetchSoil (Means 333 333 130)) \<le> 100 \<and>
   fClay (fetchSoil (Means 333 333 130)) + fSand (fetchSoil (Means 333 333 130))
      + fSilt (fetchSoil (Means 333 333 130)) \<le> 1 \<and>
   \<not> clay (fetchSoil (Means 700 500 130)) + sand (fetchSoil (Means 700 500 130)) \<le> 100 \<and>
   1 < fClay (fetchSoil (Means 700 500 130)) + fSand (fetchSoil (Means 700 500 130))
      + fSilt (fetchSoil (Means 700 500 130))"
proof -
  have a: "clay (fetchSoil (Means 333 333 130)) + sand (fetchSoil (Means 333 333 130)) \<le> 100"
    by (simp add: fetchSoil_def Let_def)
  have b: "\<not> clay (fetchSoil (Means 700 500 130)) + sand (fetchSoil (Means 700 500 130)) \<le> 100"
    by (simp add: fetchSoil_def Let_def)
  from fractions_sum [of "Means 333 333 130"] fractions_sum [of "Means 700 500 130"] a b
  show ?thesis by simp
qed

subsection \<open>The concrete scenario\<close>

text \<open>
  For the scenario the friction blend is \<open>34 * 0.2 + 28 * 0.2 + 18 * 0.6 = 23.2\<close>, not
  23.6, and the level is \<open>Low\<close>, neither \<open>Medium\<close> nor \<open>High\<close>.
\<close>

theorem scenario_counterexample:
  "phi_base steep_clay \<noteq> 23.6 \<and>
   friction_base (details (calculateLandslideRisk steep_clay)) \<noteq> 23.6 \<and>
   level (calculateLandslideRisk steep_clay) \<notin> {Medium, High}"
proof -
  have "friction_base (details (calculateLandslideRisk steep_clay)) = 23.2"
    by (simp add: calculateLandslideRisk_def isSeaOrWater_def isSnow_def steep_clay_def
      phi_base_def fClay_def fSand_def fSilt_def Number_toFixed_def)
  then show ?thesis by (simp add: steep_clay_bases steep_clay_level)
qed

text \<open>
  C7, as the code has it. For the input \<^verbatim>\<open>{rain:0, slope:45, clay:60, sand:20, silt:20,
  bulk_density:130, elevation:500, temp:20, code:0, isWater:false}\<close> the baseline
  cohesion is 23.2 and the baseline friction angle is 23.2 (both reported unchanged),
  the saturation index is 0.1, the factor of safety is the finite value
  \<open>(22.04 + 19.1295 * tan(22.504 degrees)) / 19.1305\<close>, strictly between 1.5 and 2, so
  the probability is 0.20 and the level \<open>Low\<close>; the reason starts with the clay-rich
  sentence, followed by the steep-slope sentence.
\<close>

theorem scenario_result:
  "c_base steep_clay = 23.2 \<and>
   cohesion_base (details (calculateLandslideRisk steep_clay)) = 23.2 \<and>
   phi_base steep_clay = 23.2 \<and>
   friction_base (details (calculateLandslideRisk steep_clay)) = 23.2 \<and>
   saturationIndex steep_clay = 0.1 \<and>
   FoS (details (calculateLandslideRisk steep_clay)) =
     (22.04 + 19.1295 * tan (22.504 * (pi / 180))) / 19.1305 \<and>
   1.5 < FoS (details (calculateLandslideRisk steep_clay)) \<and>
   FoS (details (calculateLandslideRisk steep_clay)) < 2.0 \<and>
   probability steep_clay = 0.20 \<and>
   level (calculateLandslideRisk steep_clay) = Low \<and>
   reason (calculateLandslideRisk steep_clay) =
     clay_sentence 60 @ [Lit '' ''] @ steep_sentence 45"
proof -
  have v: "cohesion_base (details (calculateLandslideRisk steep_clay)) = 23.2"
    "friction_base (details (calculateLandslideRisk steep_clay)) = 23.2"
    by (simp_all add: calculateLandslideRisk_def isSeaOrWater_def isSnow_def steep_clay_def
      c_base_def phi_base_def fClay_def fSand_def fSilt_def Number_toFixed_def)
  have F: "FoS (details (calculateLandslideRisk steep_clay)) =
     (22.04 + 19.1295 * tan (22.504 * (pi / 180))) / 19.1305"
    unfolding steep_clay_FoS steep_clay_FoS_stability steep_clay_tanPhi_eq ..
  have b: "1.5 < FoS (details (calculateLandslideRisk steep_clay))"
     "FoS (details (calculateLandslideRisk steep_clay)) < 2.0"
    unfolding steep_clay_FoS using steep_clay_FoS_bounds by simp_all
  from steep_clay_bases v steep_clay_saturation F b steep_clay_probability
    steep_clay_level steep_clay_reason
  show ?thesis by blast
qed

subsection \<open>Rainfall and the factor of safety\<close>

text \<open>
  More rain never lowers the saturation index, so it never raises the cohesion and the
  friction angle in use, nor the effective normal stress.
\<close>

lemma saturationIndex_mono: "rain f \<le> rain g \<Longrightarrow> saturationIndex f \<le> saturationIndex g"
  by (simp add: saturationIndex_def)

lemma saturationIndex_range: "1 / 10 \<le> saturationIndex f" "saturationIndex f \<le> 1"
  by (simp_all add: saturationIndex_def)

lemma c_used_antimono:
  assumes "rain f \<le> rain g" and "c_base g = c_base f"
  shows "c_used g \<le> c_used f"
proof -
  have s: "saturationIndex f \<le> saturationIndex g" using assms(1) by (rule saturationIndex_mono)
  have r: "0 \<le> 1 - 0.5 * saturationIndex g" using saturationIndex_range(2) [of g] by simp
  show ?thesis
  proof (cases "0 \<le> c_base f")
    case True
    have "c_base f * (1 - 0.5 * saturationIndex g) \<le> c_base f * (1 - 0.5 * saturationIndex f)"
      using True s by (intro mult_left_mono) simp_all
    then show ?thesis by (simp add: c_used_def c_eff_def assms(2))
  next
    case False
    then have "c_base f * (1 - 0.5 * saturationIndex g) \<le> 0"
      using r by (simp add: mult_le_0_iff)
    then show ?thesis by (simp add: c_used_def c_eff_def assms(2))
  qed
qed

lemma phi_used_antimono:
  assumes "rain f \<le> rain g" and "phi_base g = phi_base f"
  shows "phi_used g \<le> phi_used f"
proof -
  have s: "saturationIndex f \<le> saturationIndex g" using assms(1) by (rule saturationIndex_mono)
  have r: "0 \<le> 1 - 0.3 * saturationIndex g" using saturationIndex_range(2) [of g] by simp
  show ?thesis
  proof (cases "0 \<le> phi_base f")
    case True
    have "phi_base f * (1 - 0.3 * saturationIndex g) \<le> phi_base f * (1 - 0.3 * saturationIndex f)"
      using True s by (intro mult_left_mono) simp_all
    then show ?thesis by (simp add: phi_used_def phi_eff_def assms(2))
  next
    case False
    then have "phi_base f * (1 - 0.3 * saturationIndex g) \<le> 0"
      using r by (simp add: mult_le_0_iff)
    then show ?thesis by (simp add: phi_used_def phi_eff_def assms(2))
  qed
qed

lemma phi_used_bounds:
  assumes "phi_base f < 90"
  shows "5 \<le> phi_used f" "phi_used f < 90"
proof -
  show "5 \<le> phi_used f" by (simp add: phi_used_def)
  have r: "0 \<le> 1 - 0.3 * saturationIndex f" "1 - 0.3 * saturationIndex f \<le> 1"
    using saturationIndex_range [of f] by simp_all
  have "phi_eff f < 90"
  proof (cases "0 \<le> phi_base f")
    case True
    then have "phi_base f * (1 - 0.3 * saturationIndex f) \<le> phi_base f * 1"
      using r by (intro mult_left_mono) simp_all
    with assms show ?thesis by (simp add: phi_eff_def)
  next
    case False
    then have "phi_base f * (1 - 0.3 * saturationIndex f) \<le> 0"
      using r by (simp add: mult_le_0_iff)
    then show ?thesis by (simp add: phi_eff_def)
  qed
  then show "phi_used f < 90" by (simp add: phi_used_def)
qed

text \<open>Below 90 degrees the tangent is positive and increasing.\<close>

lemma tanPhi_antimono:
  assumes "rain f \<le> rain g" and "phi_base g = phi_base f" and "phi_base f < 90"
  shows "0 \<le> tanPhi g" "tanPhi g \<le> tanPhi f"
proof -
  have le: "phi_used g \<le> phi_used f" using assms(1,2) by (rule phi_used_antimono)
  have lo: "5 \<le> phi_used g" using phi_used_bounds(1) [of g] assms by simp
  have hi: "phi_used f < 90" using assms(3) by (rule phi_used_bounds)
  have a: "0 < phi_used g * (pi / 180)" using lo by simp
  have b: "phi_used g * (pi / 180) \<le> phi_used f * (pi / 180)" using le by simp
  have c: "phi_used f * (pi / 180) < pi / 2" using hi by simp
  have a': "- (pi / 2) < phi_used g * (pi / 180)" using a pi_gt_zero by linarith
  have c': "phi_used g * (pi / 180) < pi / 2" using b c by linarith
  have "0 < tan (phi_used g * (pi / 180))"
    using a c' by (rule tan_gt_zero)
  then show "0 \<le> tanPhi g" by (simp add: tanPhi_def)
  have "tan (phi_used g * (pi / 180)) \<le> tan (phi_used f * (pi / 180))"
    using a' b c by (rule tan_mono_le)
  then show "tanPhi g \<le> tanPhi f" by (simp add: tanPhi_def)
qed

lemma sigma_effective_antimono:
  assumes "rain f \<le> rain g" and "sigma g = sigma f"
  shows "0 \<le> sigma_effective g" "sigma_effective g \<le> sigma_effective f"
proof -
  show "0 \<le> sigma_effective g" by (simp add: sigma_effective_def)
  show "sigma_effective g \<le> sigma_effective f"
    using assms by (cases "0 \<le> sigma f") (auto simp add: sigma_effective_def u_pore_def)
qed

lemma tau_resisting_antimono:
  assumes "rain f \<le> rain g" and "c_base g = c_base f" and "phi_base g = phi_base f"
    and "sigma g = sigma f" and "phi_base f < 90"
  shows "tau_resisting g \<le> tau_resisting f"
proof -
  have t: "0 \<le> tanPhi g" "tanPhi g \<le> tanPhi f"
    using assms(1,3,5) by (rule tanPhi_antimono)+
  have s: "0 \<le> sigma_effective g" "sigma_effective g \<le> sigma_effective f"
    using assms(1,4) by (rule sigma_effective_antimono)+
  have "sigma_effective g * tanPhi g \<le> sigma_effective f * tanPhi f"
    using s t by (intro mult_mono) simp_all
  moreover have "c_used g \<le> c_used f" using assms(1,2) by (rule c_used_antimono)
  ultimately show ?thesis by (simp add: tau_resisting_def)
qed

text \<open>The driving stress is not negative for a slope angle between 0 and 90 degrees.\<close>

lemma tau_driving_nonneg:
  assumes "0 \<le> bulk_density f" and "0 \<le> slope f" and "slope f \<le> 90"
  shows "0 \<le> tau_driving f"
proof -
  have b: "0 \<le> beta f" "beta f \<le> pi / 2" using assms(2,3) by (simp_all add: beta_def)
  have "0 \<le> sin (beta f)" using b by (intro sin_ge_zero) simp_all
  moreover have "0 \<le> cos (beta f)" using b by (intro cos_ge_zero) simp_all
  moreover have "0 \<le> gamma f" using assms(1) by (simp add: gamma_def)
  ultimately show ?thesis by (simp add: tau_driving_def z_depth_def)
qed

lemma rain_update_same:
  "c_base (f\<lparr>rain := r\<rparr>) = c_base f" "phi_base (f\<lparr>rain := r\<rparr>) = phi_base f"
  "sigma (f\<lparr>rain := r\<rparr>) = sigma f" "tau_driving (f\<lparr>rain := r\<rparr>) = tau_driving f"
  "isSeaOrWater (f\<lparr>rain := r\<rparr>) = isSeaOrWater f" "isSnow (f\<lparr>rain := r\<rparr>) = isSnow f"
  by (simp_all add: c_base_def phi_base_def sigma_def tau_driving_def isSeaOrWater_def
      isSnow_def fClay_def fSand_def fSilt_def gamma_def beta_def)

lemma FoS_final_antimono:
  assumes "r \<le> r'" and "0 \<le> bulk_density f" and "0 \<le> slope f" and "slope f \<le> 90"
    and "phi_base f < 90"
  shows "FoS_final (f\<lparr>rain := r'\<rparr>) \<le> FoS_final (f\<lparr>rain := r\<rparr>)"
proof (cases "slope f < 1")
  case True
  then show ?thesis by (simp add: FoS_final_def FoS_probability_def)
next
  case False
  have d: "0 \<le> tau_driving f + 0.001"
    using tau_driving_nonneg [OF assms(2,3,4)] by simp
  have "tau_resisting (f\<lparr>rain := r'\<rparr>) \<le> tau_resisting (f\<lparr>rain := r\<rparr>)"
    using assms(1,5) by (intro tau_resisting_antimono) (simp_all add: rain_update_same)
  then have "tau_resisting (f\<lparr>rain := r'\<rparr>) / (tau_driving f + 0.001)
      \<le> tau_resisting (f\<lparr>rain := r\<rparr>) / (tau_driving f + 0.001)"
    using d by (rule divide_right_mono)
  then show ?thesis
    using False by (simp add: FoS_final_def FoS_probability_def FoS_stability_def rain_update_same)
qed

text \<open>
  C6. With every other feature fixed on the normal-physics path, raising the rain
  through 50, 150, 450, 850 never raises the factor of safety: each value is at most the
  one before. The features range over what the engine receives: \<open>bulk_density \<ge> 0\<close>, a
  slope angle between 0 and 90 degrees (\<^verbatim>\<open>calculateSlope\<close> returns the arctangent of a
  rise that is not negative), and a baseline friction angle
  \<open>34 * fSand + 28 * fSilt + 18 * fClay\<close> below 90 degrees (as it is whenever clay, sand
  and silt are percentages).
\<close>

theorem rain_monotone:
  assumes "\<not> isSeaOrWater f" and "\<not> isSnow f"
    and "0 \<le> bulk_density f" and "0 \<le> slope f" and "slope f \<le> 90"
    and "34 * (sand f / 100) + 28 * (silt f / 100) + 18 * (clay f / 100) < 90"
  shows "FoS (details (calculateLandslideRisk (f\<lparr>rain := 150\<rparr>)))
           \<le> FoS (details (calculateLandslideRisk (f\<lparr>rain := 50\<rparr>))) \<and>
         FoS (details (calculateLandslideRisk (f\<lparr>rain := 450\<rparr>)))
           \<le> FoS (details (calculateLandslideRisk (f\<lparr>rain := 150\<rparr>))) \<and>
         FoS (details (calculateLandslideRisk (f\<lparr>rain := 850\<rparr>)))
           \<le> FoS (details (calculateLandslideRisk (f\<lparr>rain := 450\<rparr>)))"
proof -
  have p: "phi_base f < 90"
    using assms(6) by (simp add: phi_base_def fClay_def fSand_def fSilt_def)
  have n: "FoS (details (calculateLandslideRisk (f\<lparr>rain := r\<rparr>))) = FoS_final (f\<lparr>rain := r\<rparr>)"
    for r
    using assms(1,2) by (simp add: FoS_normal rain_update_same)
  have "FoS_final (f\<lparr>rain := 150\<rparr>) \<le> FoS_final (f\<lparr>rain := 50\<rparr>)"
    using assms(3,4,5) p by (intro FoS_final_antimono) simp_all
  moreover have "FoS_final (f\<lparr>rain := 450\<rparr>) \<le> FoS_final (f\<lparr>rain := 150\<rparr>)"
    using assms(3,4,5) p by (intro FoS_final_antimono) simp_all
  moreover have "FoS_final (f\<lparr>rain := 850\<rparr>) \<le> FoS_final (f\<lparr>rain := 450\<rparr>)"
    using assms(3,4,5) p by (intro FoS_final_antimono) simp_all
  ultimately show ?thesis by (simp only: n)
qed

theorem rain_monotone_witness:
  "\<not> isSeaOrWater hillside \<and> \<not> isSnow hillside \<and>
   0 \<le> bulk_density hillside \<and> 0 \<le> slope hillside \<and> slope hillside \<le> 90 \<and>
   34 * (sand hillside / 100) + 28 * (silt hillside / 100) + 18 * (clay hillside / 100) < 90 \<and>
   FoS (details (calculateLandslideRisk (hillside\<lparr>rain := 150\<rparr>)))
     \<le> FoS (details (calculateLandslideRisk (hillside\<lparr>rain := 50\<rparr>))) \<and>
   FoS (details (calculateLandslideRisk (hillside\<lparr>rain := 450\<rparr>)))
     \<le> FoS (details (calculateLandslideRisk (hillside\<lparr>rain := 150\<rparr>))) \<and>
   FoS (details (calculateLandslideRisk (hillside\<lparr>rain := 850\<rparr>)))
     \<le> FoS (details (calculateLandslideRisk (hillside\<lparr>rain := 450\<rparr>)))"
proof -
  have h: "\<not> isSeaOrWater hillside" "\<not> isSnow hillside"
    "0 \<le> bulk_density hillside" "0 \<le> slope hillside" "slope hillside \<le> 90"
    "34 * (sand hillside / 100) + 28 * (silt hillside / 100) + 18 * (clay hillside / 100) < 90"
    by (simp_all add: isSeaOrWater_def isSnow_def hillside_def)
  from rain_monotone [OF h] h show ?thesis by blast
qed

end
